theory Spec2Isabelle
  imports Complex_Main
begin

section \<open>The simulation core of \<open>src/components/flappy-bird.tsx\<close>\<close>

text \<open>
  The component keeps its state in React hooks (\<open>gameState\<close>, \<open>score\<close>, \<open>highScore\<close>,
  \<open>bird\<close>, \<open>pipes\<close>) and one mutable ref (\<open>frameCountRef\<close>). The model below collects
  them in one record and turns each handler (\<open>jump\<close>, \<open>resetGame\<close>, \<open>gameLoop\<close>) into a
  function from the state before the event to the state after it.

  Modelling decisions:
  \<^item> JavaScript numbers that hold coordinates and velocities are modelled as exact reals:
    rounding of IEEE doubles, infinities and NaN are not modelled. The counters (\<open>score\<close>,
    \<open>highScore\<close>, \<open>frameCountRef.current\<close>) start at 0 and only grow by 1, so they are
    natural numbers.
  \<^item> A handler reads \<open>gameState\<close>, \<open>score\<close>, \<open>highScore\<close>, \<open>pipes\<close> and \<open>bird\<close> from the
    closure of the last render, and the functional updaters receive the current value
    as \<open>prev\<close>. The effect of lines 172-186 re-schedules the loop from a fresh closure
    whenever the state changes, so both are the state before the event and every event
    is one atomic transition.
  \<^item> \<open>Math.random()\<close> is an input of the tick: the number \<open>r\<close> it returns, with
    \<open>0 \<le> r < 1\<close>.
  \<^item> \<open>useWindowDimensions()\<close> is the configuration: \<open>screenWidth\<close> and \<open>screenHeight\<close>.
\<close>

subsection \<open>Data (lines 13-50)\<close>

record Bird =
  bird_x :: real
  bird_y :: real
  bird_velocityY :: real

record Pipe =
  pipe_x :: real
  pipe_topHeight :: real
  pipe_bottomY :: real
  pipe_scored :: bool

datatype phase = Waiting | Playing | GameOver

record config =
  screenWidth :: real
  screenHeight :: real

record game =
  gameState :: phase
  score :: nat
  highScore :: nat
  bird :: Bird
  pipes :: "Pipe list"
  frameCount :: nat

definition GRAVITY :: real where "GRAVITY = 8 / 10"
definition JUMP_FORCE :: real where "JUMP_FORCE = - 12"
definition PIPE_WIDTH :: real where "PIPE_WIDTH = 60"
definition PIPE_GAP :: real where "PIPE_GAP = 200"
definition BIRD_SIZE :: real where "BIRD_SIZE = 30"
definition GAME_SPEED :: real where "GAME_SPEED = 3"

text \<open>The state a freshly mounted component starts from (the \<open>useState\<close> and \<open>useRef\<close>
  initial values, lines 37-50). Nothing here inspects the window size.\<close>

definition FlappyBird :: "config \<Rightarrow> game" where
  "FlappyBird cfg =
     \<lparr>gameState = Waiting, score = 0, highScore = 0,
      bird = \<lparr>bird_x = 100, bird_y = screenHeight cfg / 2, bird_velocityY = 0\<rparr>,
      pipes = [], frameCount = 0\<rparr>"

subsection \<open>Activate and reset (lines 58-79)\<close>

definition resetGame :: "config \<Rightarrow> game \<Rightarrow> game" where
  "resetGame cfg s =
     s\<lparr>gameState := Waiting, score := 0,
       bird := \<lparr>bird_x = 100, bird_y = screenHeight cfg / 2, bird_velocityY = 0\<rparr>,
       pipes := [], frameCount := 0\<rparr>"

definition jump :: "config \<Rightarrow> game \<Rightarrow> game" where
  "jump cfg s =
     (case gameState s of
        Waiting \<Rightarrow> s\<lparr>gameState := Playing, bird := (bird s)\<lparr>bird_velocityY := JUMP_FORCE\<rparr>\<rparr>
      | Playing \<Rightarrow> s\<lparr>bird := (bird s)\<lparr>bird_velocityY := JUMP_FORCE\<rparr>\<rparr>
      | GameOver \<Rightarrow> resetGame cfg s)"

subsection \<open>Obstacle generation (lines 81-92)\<close>

definition minHeight :: real where "minHeight = 50"

definition maxHeight :: "config \<Rightarrow> real" where
  "maxHeight cfg = screenHeight cfg - PIPE_GAP - minHeight - 100"

definition generatePipe :: "config \<Rightarrow> real \<Rightarrow> Pipe" where
  "generatePipe cfg r =
     (let topHeight = r * (maxHeight cfg - minHeight) + minHeight
      in \<lparr>pipe_x = screenWidth cfg, pipe_topHeight = topHeight,
          pipe_bottomY = topHeight + PIPE_GAP, pipe_scored = False\<rparr>)"

subsection \<open>Collision test (lines 94-121)\<close>

text \<open>The \<open>for\<close> loop over the pipes returns at the first pipe that is hit.\<close>

fun pipeCollision :: "Bird \<Rightarrow> Pipe list \<Rightarrow> bool" where
  "pipeCollision b [] = False"
| "pipeCollision b (p # ps) =
     (if bird_x b + BIRD_SIZE > pipe_x p \<and> bird_x b < pipe_x p + PIPE_WIDTH
      then (if bird_y b < pipe_topHeight p \<or> bird_y b + BIRD_SIZE > pipe_bottomY p
            then True
            else pipeCollision b ps)
      else pipeCollision b ps)"

definition checkCollision :: "config \<Rightarrow> Bird \<Rightarrow> Pipe list \<Rightarrow> bool" where
  "checkCollision cfg b ps =
     (if bird_y b > screenHeight cfg - 100 - BIRD_SIZE then True
      else if bird_y b < 0 then True
      else pipeCollision b ps)"

subsection \<open>One frame (lines 123-170)\<close>

text \<open>The candidate body of the \<open>setBird\<close> updater (lines 129-133): both fields are
  computed from \<open>prev\<close>.\<close>

definition newBird :: "Bird \<Rightarrow> Bird" where
  "newBird prev =
     prev\<lparr>bird_y := bird_y prev + bird_velocityY prev,
          bird_velocityY := bird_velocityY prev + GRAVITY\<rparr>"

text \<open>The \<open>setPipes\<close> updater (lines 147-167), in its three stages: shift and drop,
  spawn, score. The scoring pass mutates the fresh pipe objects and calls
  \<open>setScore(prev => prev + 1)\<close> once for each hit; the model threads the score through
  the \<open>forEach\<close>.\<close>

definition movePipes :: "Pipe list \<Rightarrow> Pipe list" where
  "movePipes prev =
     filter (\<lambda>pipe. pipe_x pipe > - PIPE_WIDTH)
       (map (\<lambda>pipe. pipe\<lparr>pipe_x := pipe_x pipe - GAME_SPEED\<rparr>) prev)"

definition spawnPipe :: "config \<Rightarrow> real \<Rightarrow> nat \<Rightarrow> Pipe list \<Rightarrow> Pipe list" where
  "spawnPipe cfg r fc newPipes =
     (if fc mod 100 = 0 then newPipes @ [generatePipe cfg r] else newPipes)"

fun scorePipes :: "real \<Rightarrow> Pipe list \<Rightarrow> nat \<Rightarrow> Pipe list \<times> nat" where
  "scorePipes bx [] sc = ([], sc)"
| "scorePipes bx (pipe # rest) sc =
     (if \<not> pipe_scored pipe \<and> pipe_x pipe + PIPE_WIDTH < bx
      then (let (rest', sc') = scorePipes bx rest (sc + 1)
            in (pipe\<lparr>pipe_scored := True\<rparr> # rest', sc'))
      else (let (rest', sc') = scorePipes bx rest sc
            in (pipe # rest', sc')))"

definition updatePipes :: "config \<Rightarrow> real \<Rightarrow> game \<Rightarrow> Pipe list \<times> nat" where
  "updatePipes cfg r s =
     scorePipes (bird_x (bird s))
       (spawnPipe cfg r (frameCount s + 1) (movePipes (pipes s))) (score s)"

text \<open>\<open>gameLoop\<close>: nothing happens outside \<open>playing\<close>; otherwise the frame counter is
  incremented, the \<open>setBird\<close> updater tests the candidate body against the pipes of the
  last render and either ends the game (keeping \<open>prev\<close>) or commits the candidate, and
  the \<open>setPipes\<close> updater runs after it, whatever the test said.\<close>

definition gameLoop :: "config \<Rightarrow> real \<Rightarrow> game \<Rightarrow> game" where
  "gameLoop cfg r s =
     (if gameState s \<noteq> Playing then s
      else
        let hit = checkCollision cfg (newBird (bird s)) (pipes s);
            (newPipes, newScore) = updatePipes cfg r s
        in s\<lparr>gameState := (if hit then GameOver else Playing),
             highScore := (if hit \<and> score s > highScore s then score s else highScore s),
             bird := (if hit then bird s else newBird (bird s)),
             pipes := newPipes,
             score := newScore,
             frameCount := frameCount s + 1\<rparr>)"

subsection \<open>Event sequences\<close>

text \<open>The driver delivers ticks, the touch surface delivers activate events, and the
  button of the game-over overlay (line 390) calls \<open>resetGame\<close> directly.\<close>

datatype event = Tick real | Activate | Restart

fun step :: "config \<Rightarrow> game \<Rightarrow> event \<Rightarrow> game" where
  "step cfg s (Tick r) = gameLoop cfg r s"
| "step cfg s Activate = jump cfg s"
| "step cfg s Restart = resetGame cfg s"

definition run :: "config \<Rightarrow> game \<Rightarrow> event list \<Rightarrow> game" where
  "run cfg s es = foldl (step cfg) s es"

text \<open>Recorded games, used as concrete inputs below. \<open>flap r n\<close> is one activate followed
  by \<open>n\<close> ticks whose draws are all \<open>r\<close> (a draw matters only on a spawning tick). An
  activate every 31 ticks brings the body back to the height it started from.
  \<^item> \<open>early_game\<close>: 99 ticks of regular flapping, up to the tick before the first spawn.
  \<^item> \<open>falling_game\<close>: 124 ticks of regular flapping, then 14 ticks of free fall.
  \<^item> \<open>steady_game\<close>: 211 ticks of regular flapping, draws \<open>1/2\<close>.
  \<^item> \<open>fatal_game\<close>: 211 ticks with the draws \<open>3/10\<close> and the seventh activate five
    ticks early (after tick 181), which leaves the body too low for the first gap on
    tick 212.\<close>

definition flap :: "real \<Rightarrow> nat \<Rightarrow> event list" where
  "flap r n = Activate # replicate n (Tick r)"

definition early_game :: "event list" where
  "early_game = flap (1 / 2) 31 @ flap (1 / 2) 31 @ flap (1 / 2) 31 @ flap (1 / 2) 6"

definition falling_game :: "event list" where
  "falling_game =
     flap (1 / 2) 31 @ flap (1 / 2) 31 @ flap (1 / 2) 31 @ flap (1 / 2) 31 @
     replicate 14 (Tick (1 / 2))"

definition steady_game :: "event list" where
  "steady_game =
     flap (1 / 2) 31 @ flap (1 / 2) 31 @ flap (1 / 2) 31 @ flap (1 / 2) 31 @
     flap (1 / 2) 31 @ flap (1 / 2) 31 @ flap (1 / 2) 25"

definition fatal_game :: "event list" where
  "fatal_game =
     flap (3 / 10) 31 @ flap (3 / 10) 31 @ flap (3 / 10) 31 @ flap (3 / 10) 31 @
     flap (3 / 10) 31 @ flap (3 / 10) 26 @ flap (3 / 10) 30"

subsection \<open>Vocabulary of the statements\<close>

text \<open>The body of the scoring \<open>forEach\<close> (lines 160-163), read as a test and as what
  it does to one pipe; the number of pipes of a stream not yet passed; the windows the
  examples run in.\<close>

abbreviation crossed :: "real \<Rightarrow> Pipe \<Rightarrow> bool" where
  "crossed bx pipe \<equiv> \<not> pipe_scored pipe \<and> pipe_x pipe + PIPE_WIDTH < bx"

abbreviation mark :: "real \<Rightarrow> Pipe \<Rightarrow> Pipe" where
  "mark bx pipe \<equiv> (if crossed bx pipe then pipe\<lparr>pipe_scored := True\<rparr> else pipe)"

abbreviation unscored :: "Pipe list \<Rightarrow> nat" where
  "unscored ps \<equiv> length (filter (\<lambda>pipe. \<not> pipe_scored pipe) ps)"

abbreviation phone :: config where
  "phone \<equiv> \<lparr>screenWidth = 400, screenHeight = 800\<rparr>"

abbreviation narrow :: config where
  "narrow \<equiv> \<lparr>screenWidth = 375, screenHeight = 800\<rparr>"

text \<open>Two invariants of the reachable states, used in the proofs below: every pipe of
  the stream is right of \<open>- PIPE_WIDTH\<close>; and the body sits at \<open>x = 100\<close>, the marked
  pipes are exactly those whose trailing edge is left of it, and the score plus the
  number of unmarked pipes is the number of pipes spawned since the last reset.\<close>

definition on_screen :: "game \<Rightarrow> bool" where
  "on_screen s \<longleftrightarrow> (\<forall>p\<in>set (pipes s). - PIPE_WIDTH < pipe_x p)"

definition accounted :: "game \<Rightarrow> bool" where
  "accounted s \<longleftrightarrow>
     bird_x (bird s) = 100 \<and>
     (\<forall>p\<in>set (pipes s). pipe_scored p \<longleftrightarrow> pipe_x p + PIPE_WIDTH < 100) \<and>
     score s + unscored (pipes s) = frameCount s div 100"

section \<open>Auxiliary facts\<close>

lemmas constants = GRAVITY_def JUMP_FORCE_def PIPE_WIDTH_def PIPE_GAP_def BIRD_SIZE_def
  GAME_SPEED_def

lemma replicate_numeral: "replicate (numeral k) x = x # replicate (pred_numeral k) x"
  by (simp add: numeral_eq_Suc)

lemma run_append: "run cfg s (es @ fs) = run cfg (run cfg s es) fs"
  by (simp add: run_def)

lemmas frame_defs = gameLoop_def updatePipes_def movePipes_def spawnPipe_def generatePipe_def
  jump_def resetGame_def FlappyBird_def newBird_def checkCollision_def maxHeight_def
  minHeight_def constants

lemmas game_defs = run_def flap_def replicate_numeral frame_defs

lemma gameLoop_playing:
  "gameState s = Playing \<Longrightarrow>
   gameLoop cfg r s =
     s\<lparr>gameState := (if checkCollision cfg (newBird (bird s)) (pipes s) then GameOver else Playing),
       highScore := (if checkCollision cfg (newBird (bird s)) (pipes s) \<and> score s > highScore s
                     then score s else highScore s),
       bird := (if checkCollision cfg (newBird (bird s)) (pipes s) then bird s else newBird (bird s)),
       pipes := fst (updatePipes cfg r s),
       score := snd (updatePipes cfg r s),
       frameCount := frameCount s + 1\<rparr>"
  by (simp add: gameLoop_def Let_def case_prod_beta)

lemma gameLoop_idle: "gameState s \<noteq> Playing \<Longrightarrow> gameLoop cfg r s = s"
  by (simp add: gameLoop_def)

lemma resetGame_fresh: "resetGame cfg s = (FlappyBird cfg)\<lparr>highScore := highScore s\<rparr>"
  by (simp add: resetGame_def FlappyBird_def)

subsection \<open>The collision loop\<close>

lemma pipeCollision_iff:
  "pipeCollision b ps \<longleftrightarrow>
     (\<exists>p\<in>set ps. bird_x b + BIRD_SIZE > pipe_x p \<and> bird_x b < pipe_x p + PIPE_WIDTH \<and>
        (bird_y b < pipe_topHeight p \<or> bird_y b + BIRD_SIZE > pipe_bottomY p))"
  by (induction ps) auto

text \<open>Two half-open spans of positive width share a point exactly when each starts
  before the other ends, which is the pair of comparisons of lines 108-109.\<close>

lemma span_overlap:
  "{px ..< px + PIPE_WIDTH} \<inter> {bx ..< bx + BIRD_SIZE} \<noteq> {} \<longleftrightarrow>
     bx + BIRD_SIZE > px \<and> bx < px + PIPE_WIDTH"
proof
  assume "{px ..< px + PIPE_WIDTH} \<inter> {bx ..< bx + BIRD_SIZE} \<noteq> {}"
  then obtain z where "z \<in> {px ..< px + PIPE_WIDTH} \<inter> {bx ..< bx + BIRD_SIZE}"
    by blast
  then have "px \<le> z" "z < px + PIPE_WIDTH" "bx \<le> z" "z < bx + BIRD_SIZE"
    by simp_all
  then show "bx + BIRD_SIZE > px \<and> bx < px + PIPE_WIDTH" by linarith
next
  assume h: "bx + BIRD_SIZE > px \<and> bx < px + PIPE_WIDTH"
  have "max px bx \<in> {px ..< px + PIPE_WIDTH} \<inter> {bx ..< bx + BIRD_SIZE}"
    using h by (auto simp: PIPE_WIDTH_def BIRD_SIZE_def)
  then show "{px ..< px + PIPE_WIDTH} \<inter> {bx ..< bx + BIRD_SIZE} \<noteq> {}" by blast
qed

subsection \<open>The scoring loop\<close>

lemma scorePipes_eq:
  "scorePipes bx ps sc = (map (mark bx) ps, sc + length (filter (crossed bx) ps))"
  by (induction ps arbitrary: sc) auto

lemma scorePipes_again: "scorePipes bx (map (mark bx) ps) sc = (map (mark bx) ps, sc)"
  by (induction ps) auto

lemma scorePipes_x: "pipe_x ` set (fst (scorePipes bx ps sc)) = pipe_x ` set ps"
  by (induction ps arbitrary: sc) (auto simp: case_prod_beta)

lemma unscored_mark:
  "length (filter (crossed bx) ps) + unscored (map (mark bx) ps) = unscored ps"
  by (induction ps) auto

subsection \<open>Shift, drop and spawn\<close>

lemma movePipes_eq:
  "movePipes ps =
     map (\<lambda>pipe. pipe\<lparr>pipe_x := pipe_x pipe - GAME_SPEED\<rparr>)
       (filter (\<lambda>pipe. \<not> pipe_x pipe - GAME_SPEED \<le> - PIPE_WIDTH) ps)"
  by (simp add: movePipes_def filter_map comp_def not_le)

lemma movePipes_bound: "p \<in> set (movePipes ps) \<Longrightarrow> - PIPE_WIDTH < pipe_x p"
  by (simp add: movePipes_def)

lemma unscored_movePipes:
  "\<forall>p\<in>set ps. \<not> pipe_scored p \<longrightarrow> 100 \<le> pipe_x p + PIPE_WIDTH \<Longrightarrow>
   unscored (movePipes ps) = unscored ps"
  by (induction ps) (auto simp: movePipes_def constants)

lemma unscored_spawnPipe:
  "unscored (spawnPipe cfg r fc ps) = unscored ps + (if fc mod 100 = 0 then 1 else 0)"
  by (simp add: spawnPipe_def generatePipe_def Let_def)

lemma div_100_Suc:
  "(n + 1) div 100 = n div 100 + (if (n + 1) mod 100 = 0 then 1 else 0)" for n :: nat
  using div_Suc [of n 100] by simp

lemma generatePipe_range:
  assumes "0 \<le> r" "r < 1" "minHeight \<le> maxHeight cfg"
  shows "minHeight \<le> pipe_topHeight (generatePipe cfg r)"
    and "pipe_topHeight (generatePipe cfg r) \<le> maxHeight cfg"
proof -
  have top: "pipe_topHeight (generatePipe cfg r) = r * (maxHeight cfg - minHeight) + minHeight"
    by (simp add: generatePipe_def Let_def)
  have "0 \<le> r * (maxHeight cfg - minHeight)"
    using assms by simp
  then show "minHeight \<le> pipe_topHeight (generatePipe cfg r)"
    unfolding top by simp
  have "r * (maxHeight cfg - minHeight) \<le> 1 * (maxHeight cfg - minHeight)"
    using assms by (intro mult_right_mono) simp_all
  then show "pipe_topHeight (generatePipe cfg r) \<le> maxHeight cfg"
    unfolding top by simp
qed

subsection \<open>Invariants of event sequences\<close>

lemma on_screen_gameLoop:
  assumes "- PIPE_WIDTH < screenWidth cfg" "on_screen s"
  shows "on_screen (gameLoop cfg r s)"
proof (cases "gameState s = Playing")
  case False
  then show ?thesis using assms by (simp add: gameLoop_idle)
next
  case True
  have "\<forall>p\<in>set (spawnPipe cfg r (frameCount s + 1) (movePipes (pipes s))). - PIPE_WIDTH < pipe_x p"
    using assms(1) by (auto simp: spawnPipe_def generatePipe_def Let_def dest: movePipes_bound)
  then have "\<forall>x\<in>pipe_x ` set (fst (updatePipes cfg r s)). - PIPE_WIDTH < x"
    unfolding updatePipes_def scorePipes_x by simp
  then show ?thesis
    using True by (simp add: on_screen_def gameLoop_playing)
qed

lemma on_screen_step:
  "- PIPE_WIDTH < screenWidth cfg \<Longrightarrow> on_screen s \<Longrightarrow> on_screen (step cfg s e)"
proof (cases e)
  case (Tick r)
  assume "- PIPE_WIDTH < screenWidth cfg" "on_screen s"
  then show ?thesis using Tick by (simp add: on_screen_gameLoop)
next
  case Activate
  assume "- PIPE_WIDTH < screenWidth cfg" "on_screen s"
  then show ?thesis using Activate
    by (cases "gameState s") (simp_all add: on_screen_def jump_def resetGame_def)
next
  case Restart
  then show ?thesis by (simp add: on_screen_def resetGame_def)
qed

lemma on_screen_run:
  "- PIPE_WIDTH < screenWidth cfg \<Longrightarrow> on_screen s \<Longrightarrow> on_screen (run cfg s es)"
  unfolding run_def by (induction es arbitrary: s) (simp_all add: on_screen_step)

lemma accounted_gameLoop:
  assumes "accounted s"
  shows "accounted (gameLoop cfg r s)"
proof (cases "gameState s = Playing")
  case False
  then show ?thesis using assms by (simp add: gameLoop_idle)
next
  case True
  let ?pre = "spawnPipe cfg r (frameCount s + 1) (movePipes (pipes s))"
  have bx: "bird_x (bird s) = 100" using assms by (simp add: accounted_def)
  have old: "\<forall>p\<in>set (pipes s). pipe_scored p \<longleftrightarrow> pipe_x p + PIPE_WIDTH < 100"
    using assms by (simp add: accounted_def)
  have p: "pipes (gameLoop cfg r s) = map (mark 100) ?pre"
    and sc: "score (gameLoop cfg r s) = score s + length (filter (crossed 100) ?pre)"
    and fc: "frameCount (gameLoop cfg r s) = frameCount s + 1"
    using True bx by (simp_all add: gameLoop_playing updatePipes_def scorePipes_eq)
  have x: "bird_x (bird (gameLoop cfg r s)) = 100"
    using True bx by (simp add: gameLoop_playing newBird_def)
  have "unscored (movePipes (pipes s)) = unscored (pipes s)"
    using old by (intro unscored_movePipes) (simp add: not_less)
  then have "unscored ?pre = unscored (pipes s) + (if (frameCount s + 1) mod 100 = 0 then 1 else 0)"
    by (simp only: unscored_spawnPipe)
  moreover have "length (filter (crossed 100) ?pre) + unscored (map (mark 100) ?pre) = unscored ?pre"
    by (rule unscored_mark)
  moreover have "score s + unscored (pipes s) = frameCount s div 100"
    using assms by (simp add: accounted_def)
  ultimately have "score (gameLoop cfg r s) + unscored (pipes (gameLoop cfg r s)) =
      frameCount (gameLoop cfg r s) div 100"
    unfolding p sc fc div_100_Suc by (simp split: if_splits)
  moreover have "\<forall>q\<in>set ?pre. pipe_scored q \<longrightarrow> pipe_x q + PIPE_WIDTH < 100"
    using old by (auto simp: spawnPipe_def generatePipe_def Let_def movePipes_def constants)
  then have "\<forall>q\<in>set (pipes (gameLoop cfg r s)). pipe_scored q \<longleftrightarrow> pipe_x q + PIPE_WIDTH < 100"
    unfolding p by auto
  ultimately show ?thesis using x by (simp add: accounted_def)
qed

lemma accounted_step: "accounted s \<Longrightarrow> accounted (step cfg s e)"
proof (cases e)
  case (Tick r)
  assume "accounted s"
  then show ?thesis using Tick by (simp add: accounted_gameLoop)
next
  case Activate
  assume "accounted s"
  then show ?thesis using Activate
    by (cases "gameState s") (simp_all add: accounted_def jump_def resetGame_def)
next
  case Restart
  then show ?thesis by (simp add: accounted_def resetGame_def)
qed

lemma accounted_run: "accounted s \<Longrightarrow> accounted (run cfg s es)"
  unfolding run_def by (induction es arbitrary: s) (simp_all add: accounted_step)

lemma highScore_step: "highScore s \<le> highScore (step cfg s e)"
proof (cases e)
  case (Tick r)
  then show ?thesis
    by (cases "gameState s = Playing") (simp_all add: gameLoop_playing gameLoop_idle)
next
  case Activate
  then show ?thesis by (cases "gameState s") (simp_all add: jump_def resetGame_def)
next
  case Restart
  then show ?thesis by (simp add: resetGame_def)
qed

lemma highScore_run: "highScore s \<le> highScore (run cfg s es)"
  unfolding run_def
proof (induction es arbitrary: s)
  case Nil
  show ?case by simp
next
  case (Cons e es)
  have "highScore s \<le> highScore (step cfg s e)" by (rule highScore_step)
  also have "\<dots> \<le> highScore (foldl (step cfg) (step cfg s e) es)" by (rule Cons.IH)
  finally show ?case by simp
qed

subsection \<open>The recorded games\<close>

lemma early_game_narrow:
  "run narrow (FlappyBird narrow) early_game =
     \<lparr>gameState = Playing, score = 0, highScore = 0,
      bird = \<lparr>bird_x = 100, bird_y = 340, bird_velocityY = - 36 / 5\<rparr>,
      pipes = [],
      frameCount = 99\<rparr>"
  by (simp add: early_game_def game_defs)

lemma early_game_low:
  "run \<lparr>screenWidth = 640, screenHeight = 360\<rparr> (FlappyBird \<lparr>screenWidth = 640, screenHeight = 360\<rparr>) early_game =
     \<lparr>gameState = Playing, score = 0, highScore = 0,
      bird = \<lparr>bird_x = 100, bird_y = 120, bird_velocityY = - 36 / 5\<rparr>,
      pipes = [],
      frameCount = 99\<rparr>"
  by (simp add: early_game_def game_defs)

lemma early_game_lower:
  "run \<lparr>screenWidth = 800, screenHeight = 300\<rparr> (FlappyBird \<lparr>screenWidth = 800, screenHeight = 300\<rparr>) early_game =
     \<lparr>gameState = Playing, score = 0, highScore = 0,
      bird = \<lparr>bird_x = 100, bird_y = 90, bird_velocityY = - 36 / 5\<rparr>,
      pipes = [],
      frameCount = 99\<rparr>"
  by (simp add: early_game_def game_defs)

lemma falling_game_phone:
  "run phone (FlappyBird phone) falling_game =
     \<lparr>gameState = Playing, score = 0, highScore = 0,
      bird = \<lparr>bird_x = 100, bird_y = 652, bird_velocityY = 24\<rparr>,
      pipes = [\<lparr>pipe_x = 286, pipe_topHeight = 250, pipe_bottomY = 450, pipe_scored = False\<rparr>],
      frameCount = 138\<rparr>"
  by (simp add: falling_game_def game_defs)

lemma steady_game_narrow:
  "run narrow (FlappyBird narrow) steady_game =
     \<lparr>gameState = Playing, score = 0, highScore = 0,
      bird = \<lparr>bird_x = 100, bird_y = 340, bird_velocityY = 8\<rparr>,
      pipes = [\<lparr>pipe_x = 42, pipe_topHeight = 250, pipe_bottomY = 450, pipe_scored = False\<rparr>,
      \<lparr>pipe_x = 342, pipe_topHeight = 250, pipe_bottomY = 450, pipe_scored = False\<rparr>],
      frameCount = 211\<rparr>"
  by (simp add: steady_game_def game_defs)

lemma fatal_game_narrow:
  "run narrow (FlappyBird narrow) fatal_game =
     \<lparr>gameState = Playing, score = 0, highScore = 0,
      bird = \<lparr>bird_x = 100, bird_y = 336, bird_velocityY = 12\<rparr>,
      pipes = [\<lparr>pipe_x = 42, pipe_topHeight = 170, pipe_bottomY = 370, pipe_scored = False\<rparr>,
      \<lparr>pipe_x = 342, pipe_topHeight = 170, pipe_bottomY = 370, pipe_scored = False\<rparr>],
      frameCount = 211\<rparr>"
  by (simp add: fatal_game_def game_defs)

lemma fatal_game_tall:
  "run \<lparr>screenWidth = 375, screenHeight = 812\<rparr> (FlappyBird \<lparr>screenWidth = 375, screenHeight = 812\<rparr>) fatal_game =
     \<lparr>gameState = Playing, score = 0, highScore = 0,
      bird = \<lparr>bird_x = 100, bird_y = 342, bird_velocityY = 12\<rparr>,
      pipes = [\<lparr>pipe_x = 42, pipe_topHeight = 868 / 5, pipe_bottomY = 1868 / 5, pipe_scored = False\<rparr>,
      \<lparr>pipe_x = 342, pipe_topHeight = 868 / 5, pipe_bottomY = 1868 / 5, pipe_scored = False\<rparr>],
      frameCount = 211\<rparr>"
  by (simp add: fatal_game_def game_defs)

section \<open>The integrator (C1)\<close>

text \<open>
  C1, as amended. On every tick in the playing phase on which the collision test passes,
  the new velocity is the old velocity plus \<open>GRAVITY\<close> and the new position is the old
  position plus the \<^emph>\<open>old\<close> velocity (forward Euler: the position is advanced before
  gravity is added, lines 131-132); nothing is clamped and the horizontal position is
  kept.
\<close>

theorem integrator_forward_euler:
  "gameState s = Playing \<Longrightarrow> \<not> checkCollision cfg (newBird (bird s)) (pipes s) \<Longrightarrow>
     bird_velocityY (bird (gameLoop cfg r s)) = bird_velocityY (bird s) + GRAVITY \<and>
     bird_y (bird (gameLoop cfg r s)) = bird_y (bird s) + bird_velocityY (bird s) \<and>
     bird_x (bird (gameLoop cfg r s)) = bird_x (bird s)"
  by (simp add: gameLoop_playing newBird_def)

text \<open>The theorem at a body falling through the gap of a pipe it overlaps.\<close>

theorem integrator_forward_euler_witness:
  "gameState \<lparr>gameState = Playing, score = 0, highScore = 0,
      bird = \<lparr>bird_x = 100, bird_y = 300, bird_velocityY = 4\<rparr>,
      pipes = [\<lparr>pipe_x = 110, pipe_topHeight = 200, pipe_bottomY = 400, pipe_scored = False\<rparr>],
      frameCount = 130\<rparr> = Playing \<and>
   \<not> checkCollision phone (newBird \<lparr>bird_x = 100, bird_y = 300, bird_velocityY = 4\<rparr>)
       [\<lparr>pipe_x = 110, pipe_topHeight = 200, pipe_bottomY = 400, pipe_scored = False\<rparr>] \<and>
   bird (gameLoop phone 0
     \<lparr>gameState = Playing, score = 0, highScore = 0,
      bird = \<lparr>bird_x = 100, bird_y = 300, bird_velocityY = 4\<rparr>,
      pipes = [\<lparr>pipe_x = 110, pipe_topHeight = 200, pipe_bottomY = 400, pipe_scored = False\<rparr>],
      frameCount = 130\<rparr>) = \<lparr>bird_x = 100, bird_y = 304, bird_velocityY = 24 / 5\<rparr>"
  using integrator_forward_euler [of
      "\<lparr>gameState = Playing, score = 0, highScore = 0,
        bird = \<lparr>bird_x = 100, bird_y = 300, bird_velocityY = 4\<rparr>,
        pipes = [\<lparr>pipe_x = 110, pipe_topHeight = 200, pipe_bottomY = 400, pipe_scored = False\<rparr>],
        frameCount = 130\<rparr>" phone 0]
  by (simp add: gameLoop_playing newBird_def checkCollision_def constants)

text \<open>
  The claim as written (position advanced by the new velocity) fails on the first tick
  after the first activate of a fresh game: from \<open>y = 400\<close> and velocity \<open>- 12\<close> the
  code moves the body to \<open>388\<close>, where the semi-implicit rule gives \<open>388.8\<close>.
\<close>

theorem integrator_counterexample:
  "gameState (jump phone (FlappyBird phone)) = Playing \<and>
   \<not> checkCollision phone (newBird (bird (jump phone (FlappyBird phone))))
       (pipes (jump phone (FlappyBird phone))) \<and>
   gameState (gameLoop phone 0 (jump phone (FlappyBird phone))) = Playing \<and>
   bird_y (bird (jump phone (FlappyBird phone))) = 400 \<and>
   bird_velocityY (bird (jump phone (FlappyBird phone))) = - 12 \<and>
   bird_velocityY (bird (gameLoop phone 0 (jump phone (FlappyBird phone)))) = - 12 + GRAVITY \<and>
   bird_y (bird (gameLoop phone 0 (jump phone (FlappyBird phone)))) = 388 \<and>
   bird_y (bird (gameLoop phone 0 (jump phone (FlappyBird phone)))) \<noteq>
     bird_y (bird (jump phone (FlappyBird phone))) +
     bird_velocityY (bird (gameLoop phone 0 (jump phone (FlappyBird phone))))"
  by (simp add: gameLoop_playing jump_def FlappyBird_def newBird_def checkCollision_def
      constants)

section \<open>The tick that ends the game (C2)\<close>

text \<open>
  C2, as amended. On a tick in the playing phase whose candidate body collides, the
  phase becomes game-over and the body keeps its position and velocity of before the
  tick. The frame counter is incremented all the same, and the obstacle stream is
  shifted, pruned, extended on a multiple of 100 and scored on that tick as on any
  other: the \<open>setPipes\<close> updater does not look at the collision test.
\<close>

theorem death_tick:
  "gameState s = Playing \<Longrightarrow> checkCollision cfg (newBird (bird s)) (pipes s) \<Longrightarrow>
     gameState (gameLoop cfg r s) = GameOver \<and>
     bird (gameLoop cfg r s) = bird s \<and>
     frameCount (gameLoop cfg r s) = frameCount s + 1 \<and>
     pipes (gameLoop cfg r s) =
       map (mark (bird_x (bird s))) (spawnPipe cfg r (frameCount s + 1) (movePipes (pipes s))) \<and>
     score (gameLoop cfg r s) =
       score s + length (filter (crossed (bird_x (bird s)))
                          (spawnPipe cfg r (frameCount s + 1) (movePipes (pipes s))))"
  by (simp add: gameLoop_playing updatePipes_def scorePipes_eq)

text \<open>The theorem at the end of \<open>falling_game\<close> in a window 400 by 800: after 138 ticks
  the body is at 652 with velocity 24, and tick 139 would take it to 676, below the
  ground line (\<open>800 - 100 - 30 = 670\<close>).\<close>

theorem death_tick_witness:
  "run phone (FlappyBird phone) falling_game =
     \<lparr>gameState = Playing, score = 0, highScore = 0,
      bird = \<lparr>bird_x = 100, bird_y = 652, bird_velocityY = 24\<rparr>,
      pipes = [\<lparr>pipe_x = 286, pipe_topHeight = 250, pipe_bottomY = 450, pipe_scored = False\<rparr>],
      frameCount = 138\<rparr> \<and>
   checkCollision phone (newBird (bird (run phone (FlappyBird phone) falling_game)))
     (pipes (run phone (FlappyBird phone) falling_game)) \<and>
   gameLoop phone (1 / 2) (run phone (FlappyBird phone) falling_game) =
     \<lparr>gameState = GameOver, score = 0, highScore = 0,
      bird = \<lparr>bird_x = 100, bird_y = 652, bird_velocityY = 24\<rparr>,
      pipes = [\<lparr>pipe_x = 283, pipe_topHeight = 250, pipe_bottomY = 450, pipe_scored = False\<rparr>],
      frameCount = 139\<rparr>"
  using death_tick [of "run phone (FlappyBird phone) falling_game" phone "1 / 2"]
  unfolding falling_game_phone
  by (simp add: frame_defs)

text \<open>
  The claim as written (stream, score and spawning untouched on the fatal tick) fails
  at the end of \<open>fatal_game\<close> in a window 375 by 800. After 211 ticks the game is still
  being played; the body is at 336 with velocity 12 and overlaps the first pipe, whose
  gap runs from 170 to 370. Tick 212 tests the candidate at 348, whose lower edge 378
  is below the gap: the game ends and the body stays at 336, but the same tick moves
  the pipes from 42 and 342 to 39 and 339, marks the first and raises the score from
  0 to 1.
\<close>

theorem death_tick_counterexample:
  "run narrow (FlappyBird narrow) fatal_game =
     \<lparr>gameState = Playing, score = 0, highScore = 0,
      bird = \<lparr>bird_x = 100, bird_y = 336, bird_velocityY = 12\<rparr>,
      pipes = [\<lparr>pipe_x = 42, pipe_topHeight = 170, pipe_bottomY = 370, pipe_scored = False\<rparr>,
      \<lparr>pipe_x = 342, pipe_topHeight = 170, pipe_bottomY = 370, pipe_scored = False\<rparr>],
      frameCount = 211\<rparr> \<and>
   checkCollision narrow (newBird (bird (run narrow (FlappyBird narrow) fatal_game)))
     (pipes (run narrow (FlappyBird narrow) fatal_game)) \<and>
   gameState (gameLoop narrow (3 / 10) (run narrow (FlappyBird narrow) fatal_game)) = GameOver \<and>
   bird (gameLoop narrow (3 / 10) (run narrow (FlappyBird narrow) fatal_game)) =
     bird (run narrow (FlappyBird narrow) fatal_game) \<and>
   pipes (gameLoop narrow (3 / 10) (run narrow (FlappyBird narrow) fatal_game)) =
     [\<lparr>pipe_x = 39, pipe_topHeight = 170, pipe_bottomY = 370, pipe_scored = True\<rparr>,
      \<lparr>pipe_x = 339, pipe_topHeight = 170, pipe_bottomY = 370, pipe_scored = False\<rparr>] \<and>
   pipes (gameLoop narrow (3 / 10) (run narrow (FlappyBird narrow) fatal_game)) \<noteq>
     pipes (run narrow (FlappyBird narrow) fatal_game) \<and>
   score (run narrow (FlappyBird narrow) fatal_game) = 0 \<and>
   score (gameLoop narrow (3 / 10) (run narrow (FlappyBird narrow) fatal_game)) = 1 \<and>
   frameCount (gameLoop narrow (3 / 10) (run narrow (FlappyBird narrow) fatal_game)) = 212"
  unfolding fatal_game_narrow
  by (simp add: frame_defs)

section \<open>The collision predicate (C3)\<close>

text \<open>
  C3. \<open>checkCollision\<close> returns true exactly when the body's vertical position exceeds
  the world height minus the ground thickness (100) minus the body size, or is
  negative, or some pipe's horizontal span \<open>[x, x + PIPE_WIDTH)\<close> meets the body's span
  \<open>[bird_x, bird_x + BIRD_SIZE)\<close> while the body's top is above the gap's top edge or
  its bottom is below the gap's bottom edge. The first two tests do not mention the
  pipes.
\<close>

theorem checkCollision_iff:
  "checkCollision cfg b ps \<longleftrightarrow>
     bird_y b > screenHeight cfg - 100 - BIRD_SIZE \<or>
     bird_y b < 0 \<or>
     (\<exists>p\<in>set ps.
        {pipe_x p ..< pipe_x p + PIPE_WIDTH} \<inter> {bird_x b ..< bird_x b + BIRD_SIZE} \<noteq> {} \<and>
        (bird_y b < pipe_topHeight p \<or> bird_y b + BIRD_SIZE > pipe_bottomY p))"
  unfolding span_overlap by (simp add: checkCollision_def pipeCollision_iff)

text \<open>The theorem at a body level with the upper part of a pipe it overlaps, and at the
  same body with that pipe far ahead.\<close>

theorem checkCollision_iff_witness:
  "checkCollision phone \<lparr>bird_x = 100, bird_y = 300, bird_velocityY = 0\<rparr>
     [\<lparr>pipe_x = 110, pipe_topHeight = 350, pipe_bottomY = 550, pipe_scored = False\<rparr>] \<and>
   {110 ..< 110 + PIPE_WIDTH} \<inter> {100 ..< 100 + BIRD_SIZE} \<noteq> {} \<and>
   \<not> checkCollision phone \<lparr>bird_x = 100, bird_y = 300, bird_velocityY = 0\<rparr>
     [\<lparr>pipe_x = 310, pipe_topHeight = 350, pipe_bottomY = 550, pipe_scored = False\<rparr>] \<and>
   {310 ..< 310 + PIPE_WIDTH} \<inter> {100 ..< 100 + BIRD_SIZE} = {}"
  using checkCollision_iff [of phone "\<lparr>bird_x = 100, bird_y = 300, bird_velocityY = 0\<rparr>"
      "[\<lparr>pipe_x = 110, pipe_topHeight = 350, pipe_bottomY = 550, pipe_scored = False\<rparr>]"]
    checkCollision_iff [of phone "\<lparr>bird_x = 100, bird_y = 300, bird_velocityY = 0\<rparr>"
      "[\<lparr>pipe_x = 310, pipe_topHeight = 350, pipe_bottomY = 550, pipe_scored = False\<rparr>]"]
  by (simp add: checkCollision_def constants)

section \<open>The scorer (C4)\<close>

text \<open>
  C4. The scoring pass marks every pipe of the stream that is unmarked and whose
  trailing edge \<open>x + PIPE_WIDTH\<close> is left of the body, leaves every other pipe as it is,
  and adds one point for each pipe it marks; a second pass over its output marks
  nothing and adds nothing. Every tick in the playing phase applies this pass, at the
  body's horizontal position and the session's score, to the shifted, pruned and
  extended stream, and its results are the new stream and the new score. The shift
  and the pruning do not touch the marks. Over any sequence of events from a fresh
  game the body stays at \<open>x = 100\<close>, the marked pipes of the stream are exactly those
  whose trailing edge is left of the body, and the score plus the number of unmarked
  pipes in the stream equals the number of pipes spawned since the last reset (one
  every 100 frames): every pipe is counted once, on the tick that first finds it
  behind the body, and never again.
\<close>

theorem scorer_once:
  "scorePipes bx ps sc =
     (map (\<lambda>pipe. if \<not> pipe_scored pipe \<and> pipe_x pipe + PIPE_WIDTH < bx
                   then pipe\<lparr>pipe_scored := True\<rparr> else pipe) ps,
      sc + length (filter (\<lambda>pipe. \<not> pipe_scored pipe \<and> pipe_x pipe + PIPE_WIDTH < bx) ps)) \<and>
   scorePipes bx (fst (scorePipes bx ps sc)) sc' = (fst (scorePipes bx ps sc), sc') \<and>
   (gameState s = Playing \<longrightarrow>
      (pipes (gameLoop cfg r s), score (gameLoop cfg r s)) =
        scorePipes (bird_x (bird s))
          (spawnPipe cfg r (frameCount s + 1) (movePipes (pipes s))) (score s)) \<and>
   map pipe_scored (movePipes ps) =
     map pipe_scored (filter (\<lambda>pipe. pipe_x pipe - GAME_SPEED > - PIPE_WIDTH) ps) \<and>
   bird_x (bird (run cfg (FlappyBird cfg) es)) = 100 \<and>
   (\<forall>pipe\<in>set (pipes (run cfg (FlappyBird cfg) es)).
      pipe_scored pipe \<longleftrightarrow> pipe_x pipe + PIPE_WIDTH < 100) \<and>
   score (run cfg (FlappyBird cfg) es) +
     length (filter (\<lambda>pipe. \<not> pipe_scored pipe) (pipes (run cfg (FlappyBird cfg) es))) =
     frameCount (run cfg (FlappyBird cfg) es) div 100"
proof -
  have "accounted (FlappyBird cfg)" by (simp add: accounted_def FlappyBird_def)
  then have "accounted (run cfg (FlappyBird cfg) es)" by (rule accounted_run)
  then have inv: "bird_x (bird (run cfg (FlappyBird cfg) es)) = 100 \<and>
      (\<forall>pipe\<in>set (pipes (run cfg (FlappyBird cfg) es)).
         pipe_scored pipe \<longleftrightarrow> pipe_x pipe + PIPE_WIDTH < 100) \<and>
      score (run cfg (FlappyBird cfg) es) +
        length (filter (\<lambda>pipe. \<not> pipe_scored pipe) (pipes (run cfg (FlappyBird cfg) es))) =
        frameCount (run cfg (FlappyBird cfg) es) div 100"
    by (simp add: accounted_def)
  have tick: "gameState s = Playing \<longrightarrow>
      (pipes (gameLoop cfg r s), score (gameLoop cfg r s)) =
        scorePipes (bird_x (bird s))
          (spawnPipe cfg r (frameCount s + 1) (movePipes (pipes s))) (score s)"
    by (simp add: gameLoop_playing updatePipes_def)
  have marks: "map pipe_scored (movePipes ps) =
      map pipe_scored (filter (\<lambda>pipe. pipe_x pipe - GAME_SPEED > - PIPE_WIDTH) ps)"
    by (simp add: movePipes_eq not_le)
  have pass: "scorePipes bx ps sc =
     (map (\<lambda>pipe. if \<not> pipe_scored pipe \<and> pipe_x pipe + PIPE_WIDTH < bx
                   then pipe\<lparr>pipe_scored := True\<rparr> else pipe) ps,
      sc + length (filter (\<lambda>pipe. \<not> pipe_scored pipe \<and> pipe_x pipe + PIPE_WIDTH < bx) ps))"
    by (rule scorePipes_eq)
  have again: "scorePipes bx (fst (scorePipes bx ps sc)) sc' = (fst (scorePipes bx ps sc), sc')"
    by (simp add: scorePipes_eq scorePipes_again)
  from pass again tick marks inv show ?thesis by blast
qed

text \<open>The theorem at a stream of a pipe already marked, a pipe just behind the body
  and a pipe ahead; and at \<open>steady_game\<close> in a window 375 by 800, whose tick 212 moves
  the first pipe from 42 to 39, marks it and raises the score from 0 to 1, after which
  one of the two pipes spawned is unmarked.\<close>

theorem scorer_once_witness:
  "scorePipes 100
     [\<lparr>pipe_x = - 20, pipe_topHeight = 90, pipe_bottomY = 290, pipe_scored = True\<rparr>,
      \<lparr>pipe_x = 38, pipe_topHeight = 100, pipe_bottomY = 300, pipe_scored = False\<rparr>,
      \<lparr>pipe_x = 338, pipe_topHeight = 250, pipe_bottomY = 450, pipe_scored = False\<rparr>] 4 =
     ([\<lparr>pipe_x = - 20, pipe_topHeight = 90, pipe_bottomY = 290, pipe_scored = True\<rparr>,
       \<lparr>pipe_x = 38, pipe_topHeight = 100, pipe_bottomY = 300, pipe_scored = True\<rparr>,
       \<lparr>pipe_x = 338, pipe_topHeight = 250, pipe_bottomY = 450, pipe_scored = False\<rparr>], 5) \<and>
   run narrow (FlappyBird narrow) steady_game =
     \<lparr>gameState = Playing, score = 0, highScore = 0,
      bird = \<lparr>bird_x = 100, bird_y = 340, bird_velocityY = 8\<rparr>,
      pipes = [\<lparr>pipe_x = 42, pipe_topHeight = 250, pipe_bottomY = 450, pipe_scored = False\<rparr>,
      \<lparr>pipe_x = 342, pipe_topHeight = 250, pipe_bottomY = 450, pipe_scored = False\<rparr>],
      frameCount = 211\<rparr> \<and>
   gameLoop narrow (1 / 2) (run narrow (FlappyBird narrow) steady_game) =
     \<lparr>gameState = Playing, score = 1, highScore = 0,
      bird = \<lparr>bird_x = 100, bird_y = 348, bird_velocityY = 44 / 5\<rparr>,
      pipes = [\<lparr>pipe_x = 39, pipe_topHeight = 250, pipe_bottomY = 450, pipe_scored = True\<rparr>,
      \<lparr>pipe_x = 339, pipe_topHeight = 250, pipe_bottomY = 450, pipe_scored = False\<rparr>],
      frameCount = 212\<rparr> \<and>
   run narrow (FlappyBird narrow) (steady_game @ [Tick (1 / 2)]) =
     gameLoop narrow (1 / 2) (run narrow (FlappyBird narrow) steady_game) \<and>
   score (run narrow (FlappyBird narrow) (steady_game @ [Tick (1 / 2)])) + 1 = 212 div 100"
  using scorer_once [of 100
      "[\<lparr>pipe_x = - 20, pipe_topHeight = 90, pipe_bottomY = 290, pipe_scored = True\<rparr>,
        \<lparr>pipe_x = 38, pipe_topHeight = 100, pipe_bottomY = 300, pipe_scored = False\<rparr>,
        \<lparr>pipe_x = 338, pipe_topHeight = 250, pipe_bottomY = 450, pipe_scored = False\<rparr>]"
      4 5 "run narrow (FlappyBird narrow) steady_game" narrow "1 / 2"
      "steady_game @ [Tick (1 / 2)]"]
  unfolding run_append steady_game_narrow
  by (simp add: run_def frame_defs)

section \<open>Activate, phase by phase (C5)\<close>

text \<open>
  C5, as amended. An activate event sets the body's vertical velocity to the impulse
  constant in the waiting phase (which also becomes playing) and in the playing phase
  (which stays playing). In the game-over phase it resets the game instead: the state
  becomes that of a fresh session except for the best score, which is kept, so the
  phase is waiting and the velocity is 0, not the impulse.
\<close>

theorem activate_by_phase:
  "(gameState s = Waiting \<longrightarrow>
      jump cfg s = s\<lparr>gameState := Playing, bird := (bird s)\<lparr>bird_velocityY := JUMP_FORCE\<rparr>\<rparr>) \<and>
   (gameState s = Playing \<longrightarrow>
      jump cfg s = s\<lparr>bird := (bird s)\<lparr>bird_velocityY := JUMP_FORCE\<rparr>\<rparr>) \<and>
   (gameState s = GameOver \<longrightarrow>
      jump cfg s = (FlappyBird cfg)\<lparr>highScore := highScore s\<rparr> \<and>
      gameState (jump cfg s) = Waiting \<and>
      bird_velocityY (bird (jump cfg s)) = 0)"
  by (simp add: jump_def resetGame_fresh) (simp add: FlappyBird_def)

text \<open>The theorem at one state of each phase.\<close>

theorem activate_by_phase_witness:
  "gameState (FlappyBird phone) = Waiting \<and>
   jump phone (FlappyBird phone) =
     \<lparr>gameState = Playing, score = 0, highScore = 0,
      bird = \<lparr>bird_x = 100, bird_y = 400, bird_velocityY = - 12\<rparr>, pipes = [], frameCount = 0\<rparr> \<and>
   gameState \<lparr>gameState = Playing, score = 2, highScore = 7,
      bird = \<lparr>bird_x = 100, bird_y = 310, bird_velocityY = 6\<rparr>,
      pipes = [\<lparr>pipe_x = 250, pipe_topHeight = 120, pipe_bottomY = 320, pipe_scored = False\<rparr>],
      frameCount = 350\<rparr> = Playing \<and>
   jump phone
     \<lparr>gameState = Playing, score = 2, highScore = 7,
      bird = \<lparr>bird_x = 100, bird_y = 310, bird_velocityY = 6\<rparr>,
      pipes = [\<lparr>pipe_x = 250, pipe_topHeight = 120, pipe_bottomY = 320, pipe_scored = False\<rparr>],
      frameCount = 350\<rparr> =
     \<lparr>gameState = Playing, score = 2, highScore = 7,
      bird = \<lparr>bird_x = 100, bird_y = 310, bird_velocityY = - 12\<rparr>,
      pipes = [\<lparr>pipe_x = 250, pipe_topHeight = 120, pipe_bottomY = 320, pipe_scored = False\<rparr>],
      frameCount = 350\<rparr> \<and>
   gameState \<lparr>gameState = GameOver, score = 9, highScore = 9,
      bird = \<lparr>bird_x = 100, bird_y = 668, bird_velocityY = 15\<rparr>,
      pipes = [\<lparr>pipe_x = 250, pipe_topHeight = 120, pipe_bottomY = 320, pipe_scored = False\<rparr>],
      frameCount = 1040\<rparr> = GameOver \<and>
   jump phone
     \<lparr>gameState = GameOver, score = 9, highScore = 9,
      bird = \<lparr>bird_x = 100, bird_y = 668, bird_velocityY = 15\<rparr>,
      pipes = [\<lparr>pipe_x = 250, pipe_topHeight = 120, pipe_bottomY = 320, pipe_scored = False\<rparr>],
      frameCount = 1040\<rparr> =
     \<lparr>gameState = Waiting, score = 0, highScore = 9,
      bird = \<lparr>bird_x = 100, bird_y = 400, bird_velocityY = 0\<rparr>, pipes = [], frameCount = 0\<rparr>"
  using activate_by_phase [of "FlappyBird phone" phone]
    activate_by_phase [of
      "\<lparr>gameState = Playing, score = 2, highScore = 7,
        bird = \<lparr>bird_x = 100, bird_y = 310, bird_velocityY = 6\<rparr>,
        pipes = [\<lparr>pipe_x = 250, pipe_topHeight = 120, pipe_bottomY = 320, pipe_scored = False\<rparr>],
        frameCount = 350\<rparr>" phone]
    activate_by_phase [of
      "\<lparr>gameState = GameOver, score = 9, highScore = 9,
        bird = \<lparr>bird_x = 100, bird_y = 668, bird_velocityY = 15\<rparr>,
        pipes = [\<lparr>pipe_x = 250, pipe_topHeight = 120, pipe_bottomY = 320, pipe_scored = False\<rparr>],
        frameCount = 1040\<rparr>" phone]
  by (simp add: FlappyBird_def JUMP_FORCE_def)

text \<open>
  The claim as written (the impulse in every phase) fails in the game-over phase: the
  activate resets the body, whose velocity is then 0 and not \<open>JUMP_FORCE\<close>.
\<close>

theorem activate_counterexample:
  "gameState \<lparr>gameState = GameOver, score = 3, highScore = 5,
      bird = \<lparr>bird_x = 100, bird_y = 650, bird_velocityY = 20\<rparr>,
      pipes = [], frameCount = 450\<rparr> = GameOver \<and>
   bird_velocityY (bird (jump phone
     \<lparr>gameState = GameOver, score = 3, highScore = 5,
      bird = \<lparr>bird_x = 100, bird_y = 650, bird_velocityY = 20\<rparr>,
      pipes = [], frameCount = 450\<rparr>)) = 0 \<and>
   bird_velocityY (bird (jump phone
     \<lparr>gameState = GameOver, score = 3, highScore = 5,
      bird = \<lparr>bird_x = 100, bird_y = 650, bird_velocityY = 20\<rparr>,
      pipes = [], frameCount = 450\<rparr>)) \<noteq> JUMP_FORCE"
  by (simp add: jump_def resetGame_def JUMP_FORCE_def)

section \<open>Windows too low for a gap (C6)\<close>

text \<open>
  C6, as amended. The component validates nothing: for every window size, mounting it
  yields the waiting state with the body at mid-height. When the window height is
  below the gap height plus the margins (\<open>200 + 50 + 50 + 100 = 400\<close>), the upper bound
  of the generation range is below its lower bound, and every generated pipe has its
  gap top above that upper bound and at or below the lower bound.
\<close>

theorem no_validation:
  "screenHeight cfg < PIPE_GAP + minHeight + minHeight + 100 \<Longrightarrow> 0 \<le> r \<Longrightarrow> r < 1 \<Longrightarrow>
     FlappyBird cfg =
       \<lparr>gameState = Waiting, score = 0, highScore = 0,
        bird = \<lparr>bird_x = 100, bird_y = screenHeight cfg / 2, bird_velocityY = 0\<rparr>,
        pipes = [], frameCount = 0\<rparr> \<and>
     maxHeight cfg < minHeight \<and>
     maxHeight cfg < pipe_topHeight (generatePipe cfg r) \<and>
     pipe_topHeight (generatePipe cfg r) \<le> minHeight"
proof -
  assume h: "screenHeight cfg < PIPE_GAP + minHeight + minHeight + 100" and r: "0 \<le> r" "r < 1"
  have d: "maxHeight cfg - minHeight < 0"
    using h by (simp add: maxHeight_def)
  have top: "pipe_topHeight (generatePipe cfg r) = r * (maxHeight cfg - minHeight) + minHeight"
    by (simp add: generatePipe_def Let_def)
  have up: "r * (maxHeight cfg - minHeight) \<le> 0"
    using r d by (simp add: mult_nonneg_nonpos)
  have "(1 - r) * (maxHeight cfg - minHeight) < 0"
    using r d by (simp add: mult_pos_neg)
  then have lo: "maxHeight cfg - minHeight < r * (maxHeight cfg - minHeight)"
    by (simp add: algebra_simps)
  have "FlappyBird cfg =
       \<lparr>gameState = Waiting, score = 0, highScore = 0,
        bird = \<lparr>bird_x = 100, bird_y = screenHeight cfg / 2, bird_velocityY = 0\<rparr>,
        pipes = [], frameCount = 0\<rparr>"
    by (simp add: FlappyBird_def)
  then show ?thesis
    using d up lo unfolding top by linarith
qed

text \<open>The theorem at a window 640 by 360, whose range runs from 50 down to 10.\<close>

theorem no_validation_witness:
  "screenHeight \<lparr>screenWidth = 640, screenHeight = 360\<rparr> < PIPE_GAP + minHeight + minHeight + 100 \<and>
   (0::real) \<le> 1 / 4 \<and> (1 / 4 :: real) < 1 \<and>
   maxHeight \<lparr>screenWidth = 640, screenHeight = 360\<rparr> = 10 \<and>
   generatePipe \<lparr>screenWidth = 640, screenHeight = 360\<rparr> (1 / 4) =
     \<lparr>pipe_x = 640, pipe_topHeight = 40, pipe_bottomY = 240, pipe_scored = False\<rparr>"
  using no_validation [of "\<lparr>screenWidth = 640, screenHeight = 360\<rparr>" "1 / 4"]
  by (simp add: generatePipe_def maxHeight_def minHeight_def constants)

text \<open>
  The claim as written (such a window is rejected) fails at a window 800 by 300: the
  component starts as usual, the range runs from 50 down to \<open>- 50\<close>, and the draw
  \<open>r = 1/2\<close> gives a pipe whose gap starts at 0 and ends at 200, the height of the
  ground line.
\<close>

theorem no_validation_counterexample:
  "screenHeight \<lparr>screenWidth = 800, screenHeight = 300\<rparr> < PIPE_GAP + minHeight + minHeight + 100 \<and>
   maxHeight \<lparr>screenWidth = 800, screenHeight = 300\<rparr> < minHeight \<and>
   FlappyBird \<lparr>screenWidth = 800, screenHeight = 300\<rparr> =
     \<lparr>gameState = Waiting, score = 0, highScore = 0,
      bird = \<lparr>bird_x = 100, bird_y = 150, bird_velocityY = 0\<rparr>, pipes = [], frameCount = 0\<rparr> \<and>
   generatePipe \<lparr>screenWidth = 800, screenHeight = 300\<rparr> (1 / 2) =
     \<lparr>pipe_x = 800, pipe_topHeight = 0, pipe_bottomY = 200, pipe_scored = False\<rparr> \<and>
   pipe_topHeight (generatePipe \<lparr>screenWidth = 800, screenHeight = 300\<rparr> (1 / 2)) < minHeight"
  by (simp add: FlappyBird_def generatePipe_def maxHeight_def minHeight_def constants)

section \<open>Pruning the stream (C7)\<close>

text \<open>
  C7, as amended. Each advance of the stream removes exactly the pipes whose shifted
  position is less than \<^emph>\<open>or equal to\<close> \<open>- PIPE_WIDTH\<close> and keeps the others, shifted, in
  their order. So no pipe is left at or beyond \<open>- PIPE_WIDTH\<close> after the shift, and if
  the window width exceeds \<open>- PIPE_WIDTH\<close> (where pipes are spawned) the same holds
  after every sequence of events, from a fresh game and from any state in which it
  holds.
\<close>

theorem removal:
  "movePipes ps =
     map (\<lambda>pipe. pipe\<lparr>pipe_x := pipe_x pipe - GAME_SPEED\<rparr>)
       (filter (\<lambda>pipe. \<not> pipe_x pipe - GAME_SPEED \<le> - PIPE_WIDTH) ps) \<and>
   (\<forall>p\<in>set (movePipes ps). \<not> pipe_x p \<le> - PIPE_WIDTH) \<and>
   (- PIPE_WIDTH < screenWidth cfg \<longrightarrow>
      (\<forall>p\<in>set (pipes (run cfg (FlappyBird cfg) es)). \<not> pipe_x p \<le> - PIPE_WIDTH)) \<and>
   (- PIPE_WIDTH < screenWidth cfg \<and> (\<forall>p\<in>set (pipes s). \<not> pipe_x p \<le> - PIPE_WIDTH) \<longrightarrow>
      (\<forall>p\<in>set (pipes (run cfg s es)). \<not> pipe_x p \<le> - PIPE_WIDTH))"
proof -
  have "on_screen (FlappyBird cfg)" by (simp add: on_screen_def FlappyBird_def)
  then have "- PIPE_WIDTH < screenWidth cfg \<Longrightarrow> on_screen (run cfg (FlappyBird cfg) es)"
    by (rule on_screen_run [rotated])
  then show ?thesis
    using movePipes_eq [of ps] movePipes_bound [of _ ps] on_screen_run [of cfg s es]
    by (auto simp: on_screen_def not_le)
qed

text \<open>The theorem at a stream of three pipes, the first of which leaves, and at two
  ticks of a game in progress.\<close>

theorem removal_witness:
  "movePipes
     [\<lparr>pipe_x = - 58, pipe_topHeight = 200, pipe_bottomY = 400, pipe_scored = True\<rparr>,
      \<lparr>pipe_x = - 56, pipe_topHeight = 210, pipe_bottomY = 410, pipe_scored = True\<rparr>,
      \<lparr>pipe_x = 243, pipe_topHeight = 300, pipe_bottomY = 500, pipe_scored = False\<rparr>] =
     [\<lparr>pipe_x = - 59, pipe_topHeight = 210, pipe_bottomY = 410, pipe_scored = True\<rparr>,
      \<lparr>pipe_x = 240, pipe_topHeight = 300, pipe_bottomY = 500, pipe_scored = False\<rparr>] \<and>
   - PIPE_WIDTH < screenWidth phone \<and>
   pipes (run phone (FlappyBird phone) [Activate, Tick 0]) = [] \<and>
   pipes (run phone
     \<lparr>gameState = Playing, score = 1, highScore = 0,
      bird = \<lparr>bird_x = 100, bird_y = 400, bird_velocityY = 0\<rparr>,
      pipes = [\<lparr>pipe_x = - 56, pipe_topHeight = 210, pipe_bottomY = 410, pipe_scored = True\<rparr>,
               \<lparr>pipe_x = 243, pipe_topHeight = 300, pipe_bottomY = 500, pipe_scored = False\<rparr>],
      frameCount = 252\<rparr> [Tick 0, Tick 0]) =
     [\<lparr>pipe_x = 237, pipe_topHeight = 300, pipe_bottomY = 500, pipe_scored = False\<rparr>]"
  using removal [of
      "[\<lparr>pipe_x = - 58, pipe_topHeight = 200, pipe_bottomY = 400, pipe_scored = True\<rparr>,
        \<lparr>pipe_x = - 56, pipe_topHeight = 210, pipe_bottomY = 410, pipe_scored = True\<rparr>,
        \<lparr>pipe_x = 243, pipe_topHeight = 300, pipe_bottomY = 500, pipe_scored = False\<rparr>]"
      phone "[Activate, Tick 0]"
      "\<lparr>gameState = Playing, score = 1, highScore = 0,
        bird = \<lparr>bird_x = 100, bird_y = 400, bird_velocityY = 0\<rparr>,
        pipes = [\<lparr>pipe_x = - 56, pipe_topHeight = 210, pipe_bottomY = 410, pipe_scored = True\<rparr>,
                 \<lparr>pipe_x = 243, pipe_topHeight = 300, pipe_bottomY = 500, pipe_scored = False\<rparr>],
        frameCount = 252\<rparr>"]
  by (simp add: run_def gameLoop_def updatePipes_def movePipes_def spawnPipe_def jump_def
      FlappyBird_def newBird_def checkCollision_def constants)

text \<open>
  The claim as written (exactly the pipes left of \<open>- PIPE_WIDTH\<close> are removed) fails on
  frame 253 of a window 399 wide: the pipe at \<open>- 57\<close> is shifted to \<open>- 60\<close>, which is
  not less than \<open>- 60\<close>, and it is removed.
\<close>

theorem removal_counterexample:
  "gameLoop \<lparr>screenWidth = 399, screenHeight = 800\<rparr> 0
     \<lparr>gameState = Playing, score = 1, highScore = 0,
      bird = \<lparr>bird_x = 100, bird_y = 400, bird_velocityY = 0\<rparr>,
      pipes = [\<lparr>pipe_x = - 57, pipe_topHeight = 200, pipe_bottomY = 400, pipe_scored = True\<rparr>,
               \<lparr>pipe_x = 243, pipe_topHeight = 300, pipe_bottomY = 500, pipe_scored = False\<rparr>],
      frameCount = 252\<rparr> =
     \<lparr>gameState = Playing, score = 1, highScore = 0,
      bird = \<lparr>bird_x = 100, bird_y = 400, bird_velocityY = 4 / 5\<rparr>,
      pipes = [\<lparr>pipe_x = 240, pipe_topHeight = 300, pipe_bottomY = 500, pipe_scored = False\<rparr>],
      frameCount = 253\<rparr> \<and>
   \<not> (- 57 - GAME_SPEED < - PIPE_WIDTH) \<and> \<not> (- 57 < - PIPE_WIDTH)"
  by (simp add: gameLoop_def updatePipes_def movePipes_def spawnPipe_def
      newBird_def checkCollision_def constants)

section \<open>Spawning (C8)\<close>

text \<open>
  C8, as amended. On every tick in the playing phase on which the collision test
  passes, the new stream is the scored shifted-and-pruned stream followed by exactly
  one new pipe when the frame counter, as incremented by this tick, is a multiple of
  100, and by none otherwise. The new pipe is generated at \<open>x = screenWidth\<close>, unmarked,
  with \<open>bottomY = topHeight + PIPE_GAP\<close>; all this holds in every window. For a draw
  \<open>0 \<le> r < 1\<close> and a window whose generation range is not empty
  (\<open>minHeight \<le> maxHeight\<close>, a height of at least 400) its \<open>topHeight\<close> lies in
  \<open>[minHeight, maxHeight]\<close>. The scoring pass of the same tick leaves the new pipe as
  generated when its trailing edge is not left of the body.
\<close>

theorem spawn_cadence:
  "gameState s = Playing \<Longrightarrow> \<not> checkCollision cfg (newBird (bird s)) (pipes s) \<Longrightarrow>
     pipes (gameLoop cfg r s) =
       fst (scorePipes (bird_x (bird s))
             (movePipes (pipes s) @
                (if frameCount (gameLoop cfg r s) mod 100 = 0 then [generatePipe cfg r] else []))
             (score s)) \<and>
     length (pipes (gameLoop cfg r s)) =
       length (movePipes (pipes s)) + (if frameCount (gameLoop cfg r s) mod 100 = 0 then 1 else 0) \<and>
     frameCount (gameLoop cfg r s) = frameCount s + 1 \<and>
     pipe_x (generatePipe cfg r) = screenWidth cfg \<and>
     pipe_scored (generatePipe cfg r) = False \<and>
     pipe_bottomY (generatePipe cfg r) = pipe_topHeight (generatePipe cfg r) + PIPE_GAP \<and>
     (0 \<le> r \<and> r < 1 \<and> minHeight \<le> maxHeight cfg \<longrightarrow>
        minHeight \<le> pipe_topHeight (generatePipe cfg r) \<and>
        pipe_topHeight (generatePipe cfg r) \<le> maxHeight cfg) \<and>
     (frameCount (gameLoop cfg r s) mod 100 = 0 \<and> bird_x (bird s) \<le> screenWidth cfg + PIPE_WIDTH \<longrightarrow>
        last (pipes (gameLoop cfg r s)) = generatePipe cfg r)"
proof -
  assume pl: "gameState s = Playing"
  have p: "pipes (gameLoop cfg r s) =
      map (mark (bird_x (bird s)))
        (movePipes (pipes s) @ (if (frameCount s + 1) mod 100 = 0 then [generatePipe cfg r] else []))"
    using pl by (simp add: gameLoop_playing updatePipes_def scorePipes_eq spawnPipe_def)
  have fc: "frameCount (gameLoop cfg r s) = frameCount s + 1"
    using pl by (simp add: gameLoop_playing)
  have g: "pipe_x (generatePipe cfg r) = screenWidth cfg" "pipe_scored (generatePipe cfg r) = False"
    "pipe_bottomY (generatePipe cfg r) = pipe_topHeight (generatePipe cfg r) + PIPE_GAP"
    by (simp_all add: generatePipe_def Let_def)
  have range: "0 \<le> r \<and> r < 1 \<and> minHeight \<le> maxHeight cfg \<longrightarrow>
      minHeight \<le> pipe_topHeight (generatePipe cfg r) \<and>
      pipe_topHeight (generatePipe cfg r) \<le> maxHeight cfg"
    using generatePipe_range [of r cfg] by blast
  show ?thesis
    using range g unfolding fc p by (simp add: scorePipes_eq)
qed

text \<open>The theorem on ticks 100 and 101 of regular flapping in a window 375 by 800 (the
  range is 50 to 450 and the draw \<open>1/2\<close> gives a gap from 250), and on tick 100 in a
  window 640 by 360, too low for the range part, where the draw \<open>1/4\<close> gives a gap from
  40.\<close>

theorem spawn_cadence_witness:
  "run narrow (FlappyBird narrow) early_game =
     \<lparr>gameState = Playing, score = 0, highScore = 0,
      bird = \<lparr>bird_x = 100, bird_y = 340, bird_velocityY = - 36 / 5\<rparr>,
      pipes = [],
      frameCount = 99\<rparr> \<and>
   \<not> checkCollision narrow (newBird (bird (run narrow (FlappyBird narrow) early_game)))
       (pipes (run narrow (FlappyBird narrow) early_game)) \<and>
   (0::real) \<le> 1 / 2 \<and> (1 / 2 :: real) < 1 \<and> minHeight \<le> maxHeight narrow \<and>
   maxHeight narrow = 450 \<and>
   gameLoop narrow (1 / 2) (run narrow (FlappyBird narrow) early_game) =
     \<lparr>gameState = Playing, score = 0, highScore = 0,
      bird = \<lparr>bird_x = 100, bird_y = 1664 / 5, bird_velocityY = - 32 / 5\<rparr>,
      pipes = [\<lparr>pipe_x = 375, pipe_topHeight = 250, pipe_bottomY = 450, pipe_scored = False\<rparr>],
      frameCount = 100\<rparr> \<and>
   gameLoop narrow (1 / 2) (gameLoop narrow (1 / 2) (run narrow (FlappyBird narrow) early_game)) =
     \<lparr>gameState = Playing, score = 0, highScore = 0,
      bird = \<lparr>bird_x = 100, bird_y = 1632 / 5, bird_velocityY = - 28 / 5\<rparr>,
      pipes = [\<lparr>pipe_x = 372, pipe_topHeight = 250, pipe_bottomY = 450, pipe_scored = False\<rparr>],
      frameCount = 101\<rparr> \<and>
   gameLoop \<lparr>screenWidth = 640, screenHeight = 360\<rparr> (1 / 4)
       (run \<lparr>screenWidth = 640, screenHeight = 360\<rparr> (FlappyBird \<lparr>screenWidth = 640, screenHeight = 360\<rparr>) early_game) =
     \<lparr>gameState = Playing, score = 0, highScore = 0,
      bird = \<lparr>bird_x = 100, bird_y = 564 / 5, bird_velocityY = - 32 / 5\<rparr>,
      pipes = [\<lparr>pipe_x = 640, pipe_topHeight = 40, pipe_bottomY = 240, pipe_scored = False\<rparr>],
      frameCount = 100\<rparr>"
  using spawn_cadence [of "run narrow (FlappyBird narrow) early_game" narrow "1 / 2"]
    spawn_cadence [of "gameLoop narrow (1 / 2) (run narrow (FlappyBird narrow) early_game)"
      narrow "1 / 2"]
    spawn_cadence [of "run \<lparr>screenWidth = 640, screenHeight = 360\<rparr> (FlappyBird \<lparr>screenWidth = 640, screenHeight = 360\<rparr>) early_game"
      "\<lparr>screenWidth = 640, screenHeight = 360\<rparr>" "1 / 4"]
  unfolding early_game_narrow early_game_low
  by (simp add: frame_defs)

text \<open>
  The claim as written (the gap top always lies in the generation range) fails on
  tick 100 of regular flapping in a window 800 by 300: the tick passes the collision
  test and appends a pipe whose gap top is 0, while the range runs from
  \<open>minHeight = 50\<close> to \<open>maxHeight = - 50\<close>.
\<close>

theorem spawn_counterexample:
  "run \<lparr>screenWidth = 800, screenHeight = 300\<rparr> (FlappyBird \<lparr>screenWidth = 800, screenHeight = 300\<rparr>) early_game =
     \<lparr>gameState = Playing, score = 0, highScore = 0,
      bird = \<lparr>bird_x = 100, bird_y = 90, bird_velocityY = - 36 / 5\<rparr>,
      pipes = [],
      frameCount = 99\<rparr> \<and>
   \<not> checkCollision \<lparr>screenWidth = 800, screenHeight = 300\<rparr>
       (newBird (bird (run \<lparr>screenWidth = 800, screenHeight = 300\<rparr> (FlappyBird \<lparr>screenWidth = 800, screenHeight = 300\<rparr>) early_game)))
       (pipes (run \<lparr>screenWidth = 800, screenHeight = 300\<rparr> (FlappyBird \<lparr>screenWidth = 800, screenHeight = 300\<rparr>) early_game)) \<and>
   gameLoop \<lparr>screenWidth = 800, screenHeight = 300\<rparr> (1 / 2)
       (run \<lparr>screenWidth = 800, screenHeight = 300\<rparr> (FlappyBird \<lparr>screenWidth = 800, screenHeight = 300\<rparr>) early_game) =
     \<lparr>gameState = Playing, score = 0, highScore = 0,
      bird = \<lparr>bird_x = 100, bird_y = 414 / 5, bird_velocityY = - 32 / 5\<rparr>,
      pipes = [\<lparr>pipe_x = 800, pipe_topHeight = 0, pipe_bottomY = 200, pipe_scored = False\<rparr>],
      frameCount = 100\<rparr> \<and>
   minHeight = 50 \<and> maxHeight \<lparr>screenWidth = 800, screenHeight = 300\<rparr> = - 50 \<and>
   \<not> (minHeight \<le> (0::real) \<and> 0 \<le> maxHeight \<lparr>screenWidth = 800, screenHeight = 300\<rparr>)"
  unfolding early_game_lower
  by (simp add: frame_defs)

section \<open>The best score (C9)\<close>

text \<open>
  C9. The claim has three parts. The best score never decreases over any sequence of
  events (\<open>highScore_run\<close>), and a reset yields the fresh state with the best score
  carried over (\<open>resetGame_fresh\<close>). The third part, that on the transition into
  game-over the best score becomes the score when the score exceeds it, is what the
  code misses: the comparison of line 138 reads the score of the last render, and the
  scoring pass of the same tick can still add a point.

  \<open>fatal_game\<close> in a window 375 by 812 is such a game. Its tick 212 ends the game on
  the lower pipe and marks that pipe as passed: the game-over state has score 1 and
  best score 0, where the overlay of line 387 shows \<open>Math.max(score, highScore) = 1\<close>,
  and the activate that follows resets the game with best score 0.
\<close>

theorem bestScore_stale:
  "run \<lparr>screenWidth = 375, screenHeight = 812\<rparr> (FlappyBird \<lparr>screenWidth = 375, screenHeight = 812\<rparr>)
       (fatal_game @ [Tick (3 / 10)]) =
     \<lparr>gameState = GameOver, score = 1, highScore = 0,
      bird = \<lparr>bird_x = 100, bird_y = 342, bird_velocityY = 12\<rparr>,
      pipes = [\<lparr>pipe_x = 39, pipe_topHeight = 868 / 5, pipe_bottomY = 1868 / 5, pipe_scored = True\<rparr>,
      \<lparr>pipe_x = 339, pipe_topHeight = 868 / 5, pipe_bottomY = 1868 / 5, pipe_scored = False\<rparr>],
      frameCount = 212\<rparr> \<and>
   run \<lparr>screenWidth = 375, screenHeight = 812\<rparr> (FlappyBird \<lparr>screenWidth = 375, screenHeight = 812\<rparr>)
       (fatal_game @ [Tick (3 / 10), Activate]) =
     \<lparr>gameState = Waiting, score = 0, highScore = 0,
      bird = \<lparr>bird_x = 100, bird_y = 406, bird_velocityY = 0\<rparr>,
      pipes = [],
      frameCount = 0\<rparr>"
proof -
  have "run \<lparr>screenWidth = 375, screenHeight = 812\<rparr> (FlappyBird \<lparr>screenWidth = 375, screenHeight = 812\<rparr>)
       (fatal_game @ [Tick (3 / 10)]) =
     \<lparr>gameState = GameOver, score = 1, highScore = 0,
      bird = \<lparr>bird_x = 100, bird_y = 342, bird_velocityY = 12\<rparr>,
      pipes = [\<lparr>pipe_x = 39, pipe_topHeight = 868 / 5, pipe_bottomY = 1868 / 5, pipe_scored = True\<rparr>,
      \<lparr>pipe_x = 339, pipe_topHeight = 868 / 5, pipe_bottomY = 1868 / 5, pipe_scored = False\<rparr>],
      frameCount = 212\<rparr>"
    unfolding run_append fatal_game_tall by (simp add: run_def frame_defs)
  moreover have "run \<lparr>screenWidth = 375, screenHeight = 812\<rparr> (FlappyBird \<lparr>screenWidth = 375, screenHeight = 812\<rparr>)
       (fatal_game @ [Tick (3 / 10), Activate]) =
     \<lparr>gameState = Waiting, score = 0, highScore = 0,
      bird = \<lparr>bird_x = 100, bird_y = 406, bird_velocityY = 0\<rparr>,
      pipes = [],
      frameCount = 0\<rparr>"
    unfolding run_append fatal_game_tall by (simp add: run_def frame_defs)
  ultimately show ?thesis by (rule conjI)
qed

section \<open>Activate outside game-over (C10)\<close>

text \<open>
  C10. An activate event received in the waiting or playing phase changes only the
  body's vertical velocity, which becomes the impulse constant, and the phase, which
  becomes playing (a change only from waiting). The body's horizontal and vertical
  position, the obstacle sequence, score, best score and tick counter stay as they
  were.
\<close>

theorem jump_frame:
  "gameState s \<noteq> GameOver \<Longrightarrow>
     jump cfg s = s\<lparr>gameState := Playing, bird := (bird s)\<lparr>bird_velocityY := JUMP_FORCE\<rparr>\<rparr> \<and>
     (gameState s = Playing \<longrightarrow> gameState (jump cfg s) = gameState s) \<and>
     bird_velocityY (bird (jump cfg s)) = JUMP_FORCE \<and>
     bird_x (bird (jump cfg s)) = bird_x (bird s) \<and>
     bird_y (bird (jump cfg s)) = bird_y (bird s) \<and>
     pipes (jump cfg s) = pipes s \<and>
     score (jump cfg s) = score s \<and>
     highScore (jump cfg s) = highScore s \<and>
     frameCount (jump cfg s) = frameCount s"
  by (cases "gameState s") (simp_all add: jump_def)

theorem jump_frame_witness:
  "gameState (FlappyBird \<lparr>screenWidth = 400, screenHeight = 800\<rparr>) \<noteq> GameOver \<and>
   jump \<lparr>screenWidth = 400, screenHeight = 800\<rparr>
        (FlappyBird \<lparr>screenWidth = 400, screenHeight = 800\<rparr>) =
     \<lparr>gameState = Playing, score = 0, highScore = 0,
      bird = \<lparr>bird_x = 100, bird_y = 400, bird_velocityY = - 12\<rparr>,
      pipes = [], frameCount = 0\<rparr>"
  using jump_frame [of "FlappyBird \<lparr>screenWidth = 400, screenHeight = 800\<rparr>"
                       "\<lparr>screenWidth = 400, screenHeight = 800\<rparr>"]
  by (simp add: FlappyBird_def JUMP_FORCE_def)


end
